theory Spec2Isabelle
  imports Main
begin

section \<open>Python values and errors\<close>

text \<open>
  The exceptions the modelled functions can raise.  A function that can raise returns
  \<open>py_error + 'a\<close>, with \<open>Inl\<close> for the exception.
\<close>

datatype py_error =
    DoesNotExist
  | MultipleObjectsReturned
  | TypeError
  | ValueError
  | OSError
  | ValidationError
  | SuspiciousFileOperation

text \<open>A primary key is \<open>None\<close> until the row is saved.  \<open>if instance.id:\<close> is Python
  truthiness: \<open>None\<close> and \<open>0\<close> are both false.\<close>

type_synonym pk = "int option"

definition truthy_pk :: "pk \<Rightarrow> bool" where
  "truthy_pk k = (case k of None \<Rightarrow> False | Some i \<Rightarrow> i \<noteq> 0)"

text \<open>\<open>str\<close> of a non-negative integer, of an integer, and of a primary key.\<close>

definition digit_char :: "nat \<Rightarrow> char" where
  "digit_char d = ''0123456789'' ! d"

function str_nat :: "nat \<Rightarrow> string" where
  "str_nat n = (if n < 10 then [digit_char n] else str_nat (n div 10) @ [digit_char (n mod 10)])"
  by pat_completeness auto
termination
  by (relation "measure id") auto

declare str_nat.simps [simp del]

definition str_int :: "int \<Rightarrow> string" where
  "str_int i = (if i < 0 then CHR ''-'' # str_nat (nat (- i)) else str_nat (nat i))"

definition str_pk :: "pk \<Rightarrow> string" where
  "str_pk k = (case k of None \<Rightarrow> ''None'' | Some i \<Rightarrow> str_int i)"

section \<open>The clock: \<open>time.strftime('%Y/%m')\<close>\<close>

text \<open>The local time \<open>strftime\<close> reads: the year and the month (1 to 12).  \<open>%Y\<close> is the
  year in decimal, \<open>%m\<close> the month in decimal, zero-padded to two digits.\<close>

record struct_time =
  tm_year :: nat
  tm_mon :: nat

definition strftime_Y :: "struct_time \<Rightarrow> string" where
  "strftime_Y t = str_nat (tm_year t)"

definition strftime_m :: "struct_time \<Rightarrow> string" where
  "strftime_m t = (if tm_mon t < 10 then ''0'' else []) @ str_nat (tm_mon t)"

definition strftime_Ym :: "struct_time \<Rightarrow> string" where
  "strftime_Ym t = strftime_Y t @ ''/'' @ strftime_m t"

section \<open>\<open>os.path.splitext\<close> (posixpath)\<close>

text \<open>\<open>str.rfind\<close> of a single character: the last index, or \<open>-1\<close>.\<close>

fun rfind_from :: "char \<Rightarrow> string \<Rightarrow> int \<Rightarrow> int \<Rightarrow> int" where
  "rfind_from c [] i found = found"
| "rfind_from c (x # xs) i found = rfind_from c xs (i + 1) (if x = c then i else found)"

definition rfind :: "string \<Rightarrow> char \<Rightarrow> int" where
  "rfind p c = rfind_from c p 0 (- 1)"

text \<open>The loop of \<open>genericpath._splitext\<close> that skips the leading dots of the last
  path component: \<open>Some\<close> is the \<open>return\<close> inside the loop, \<open>None\<close> is falling out of it.\<close>

function skip_leading_dots :: "string \<Rightarrow> int \<Rightarrow> int \<Rightarrow> (string \<times> string) option" where
  "skip_leading_dots p filenameIndex dotIndex =
     (if filenameIndex < dotIndex then
        (if take 1 (drop (nat filenameIndex) p) \<noteq> ''.''
         then Some (take (nat dotIndex) p, drop (nat dotIndex) p)
         else skip_leading_dots p (filenameIndex + 1) dotIndex)
      else None)"
  by pat_completeness auto
termination
  by (relation "measure (\<lambda>(p, filenameIndex, dotIndex). nat (dotIndex - filenameIndex))") auto

declare skip_leading_dots.simps [simp del]

definition splitext :: "string \<Rightarrow> string \<times> string" where
  "splitext p =
     (let sepIndex = rfind p CHR ''/'';
          dotIndex = rfind p CHR ''.''
      in if dotIndex > sepIndex then
           (case skip_leading_dots p (sepIndex + 1) dotIndex of
              Some r \<Rightarrow> r
            | None \<Rightarrow> (p, []))
         else (p, []))"

section \<open>The media library: \<open>cms/models/media/media_file.py\<close>\<close>

text \<open>A region, as far as the media library reads it: its primary key.\<close>

record region =
  id_region :: pk

text \<open>
  A \<open>MediaFile\<close>.  A \<open>FileField\<close> value is modelled by its \<open>name\<close> (\<open>None\<close> or a string);
  it is truthy when the name is a non-empty string.  \<open>'d\<close> is the type of datetimes.
\<close>

record 'd media_file =
  id_mf :: pk
  file_mf :: "string option"
  thumbnail :: "string option"
  type :: string
  name :: string
  region :: "region option"
  alt_text :: string
  uploaded_date :: 'd

definition truthy_file :: "string option \<Rightarrow> bool" where
  "truthy_file f = (case f of None \<Rightarrow> False | Some n \<Rightarrow> n \<noteq> [])"

text \<open>\<open>MediaFile.objects.get(id=...)\<close> over the table of stored rows.\<close>

definition objects_get :: "(int \<rightharpoonup> 'd media_file) \<Rightarrow> int \<Rightarrow> py_error + 'd media_file" where
  "objects_get objects i = (case objects i of None \<Rightarrow> Inl DoesNotExist | Some m \<Rightarrow> Inr m)"

definition region_directory :: "'d media_file \<Rightarrow> string" where
  "region_directory instance =
     (case region instance of
        Some r \<Rightarrow> ''sites/'' @ str_pk (id_region r) @ ''/''
      | None \<Rightarrow> [])"

definition new_upload_path :: "struct_time \<Rightarrow> 'd media_file \<Rightarrow> string \<Rightarrow> string" where
  "new_upload_path now instance filename =
     region_directory instance @ strftime_Ym now @ ''/'' @ filename"

text \<open>The name of a truthy \<open>FileField\<close> value.\<close>

definition file_name :: "string option \<Rightarrow> string" where
  "file_name f = (case f of None \<Rightarrow> [] | Some n \<Rightarrow> n)"

definition upload_path ::
  "struct_time \<Rightarrow> (int \<rightharpoonup> 'd media_file) \<Rightarrow> 'd media_file \<Rightarrow> string \<Rightarrow> py_error + string" where
  "upload_path now objects instance filename =
     (case (if truthy_pk (id_mf instance) then id_mf instance else None) of
        Some i \<Rightarrow>
          (case objects_get objects i of
             Inl e \<Rightarrow> Inl e
           | Inr original_instance \<Rightarrow>
               if truthy_file (file_mf original_instance)
               then Inr (file_name (file_mf original_instance))
               else Inr (new_upload_path now instance filename))
      | None \<Rightarrow> Inr (new_upload_path now instance filename))"

text \<open>\<open>splitext(instance.file.name)\<close> raises \<open>TypeError\<close> when the name is \<open>None\<close>.\<close>

definition derived_thumbnail_path :: "'d media_file \<Rightarrow> py_error + string" where
  "derived_thumbnail_path instance =
     (case file_mf instance of
        None \<Rightarrow> Inl TypeError
      | Some n \<Rightarrow> (case splitext n of (name', extension) \<Rightarrow> Inr (name' @ ''_thumbnail'' @ extension)))"

definition upload_path_thumbnail ::
  "(int \<rightharpoonup> 'd media_file) \<Rightarrow> 'd media_file \<Rightarrow> string \<Rightarrow> py_error + string" where
  "upload_path_thumbnail objects instance filename =
     (case (if truthy_pk (id_mf instance) then id_mf instance else None) of
        Some i \<Rightarrow>
          (case objects_get objects i of
             Inl e \<Rightarrow> Inl e
           | Inr original_instance \<Rightarrow>
               if truthy_file (thumbnail original_instance)
               then Inr (file_name (thumbnail original_instance))
               else derived_thumbnail_path instance)
      | None \<Rightarrow> derived_thumbnail_path instance)"

subsection \<open>URLs and serialization\<close>

text \<open>
  What the model reads from outside \<open>media_file.py\<close>: \<open>settings.BASE_URL\<close>; the storage
  backend: \<open>Storage.url\<close> of a file name, and \<open>Storage.path\<close> of a file name, which raises
  (\<open>SuspiciousFileOperation\<close> for a name that leaves the media root); the file system:
  \<open>os.path.getmtime\<close> of a path, which returns a float or raises (\<open>OSError\<close> when the file
  cannot be read, \<open>ValueError\<close> for a path with a null character); \<open>'f\<close> is the type of
  Python floats and \<open>str_float\<close> their \<open>str\<close>; the choices \<open>allowed_media.CHOICES\<close> of the
  \<open>type\<close> field; and the rendering \<open>localize(timezone.localtime(d))\<close> of a datetime.
\<close>

record ('f, 'd) media_env =
  BASE_URL :: string
  storage_url :: "string \<Rightarrow> string"
  storage_path :: "string \<Rightarrow> py_error + string"
  getmtime :: "string \<Rightarrow> py_error + 'f"
  str_float :: "'f \<Rightarrow> string"
  CHOICES :: "(string \<times> string) list"
  localize_localtime :: "'d \<Rightarrow> string"

text \<open>\<open>FieldFile.url\<close> and \<open>FieldFile.path\<close>: \<open>ValueError\<close> when the field has no file;
  otherwise what the storage gives for the name of the file.\<close>

definition field_url :: "('f, 'd) media_env \<Rightarrow> string option \<Rightarrow> py_error + string" where
  "field_url env f = (if truthy_file f then Inr (storage_url env (file_name f)) else Inl ValueError)"

definition field_path :: "('f, 'd) media_env \<Rightarrow> string option \<Rightarrow> py_error + string" where
  "field_path env f = (if truthy_file f then storage_path env (file_name f) else Inl ValueError)"

text \<open>The property \<open>MediaFile.url\<close>; \<open>None\<close> is Python's \<open>None\<close>.\<close>

definition url :: "('f, 'd) media_env \<Rightarrow> 'd media_file \<Rightarrow> py_error + string option" where
  "url env self =
     (if truthy_file (file_mf self) then
        (case field_url env (file_mf self) of
           Inl e \<Rightarrow> Inl e
         | Inr u \<Rightarrow> Inr (Some (BASE_URL env @ u)))
      else Inr None)"

text \<open>\<open>str.startswith\<close>.\<close>

definition startswith :: "string \<Rightarrow> string \<Rightarrow> bool" where
  "startswith s pre = (take (length pre) s = pre)"

definition thumbnail_url :: "('f, 'd) media_env \<Rightarrow> 'd media_file \<Rightarrow> py_error + string option" where
  "thumbnail_url env self =
     (if \<not> truthy_file (thumbnail self) then
        (if startswith (type self) ''image'' then url env self else Inr None)
      else
        (case field_url env (thumbnail self) of
           Inl e \<Rightarrow> Inl e
         | Inr u \<Rightarrow> Inr (Some (BASE_URL env @ u))))"

text \<open>The values of the serialized dictionary.\<close>

datatype pyval = PNone | PBool bool | PInt int | PStr string

definition of_pk :: "pk \<Rightarrow> pyval" where
  "of_pk k = (case k of None \<Rightarrow> PNone | Some i \<Rightarrow> PInt i)"

definition of_str_option :: "string option \<Rightarrow> pyval" where
  "of_str_option x = (case x of None \<Rightarrow> PNone | Some s \<Rightarrow> PStr s)"

text \<open>\<open>get_type_display\<close>: the label of the type in the choices, or the value itself.\<close>

definition get_type_display :: "('f, 'd) media_env \<Rightarrow> 'd media_file \<Rightarrow> string" where
  "get_type_display env self =
     (case map_of (CHOICES env) (type self) of None \<Rightarrow> type self | Some label \<Rightarrow> label)"

text \<open>The body of the \<open>try\<close>: \<open>thumbnail_url += f"?{getmtime(self.file.path)}"\<close>.\<close>

definition append_mtime :: "('f, 'd) media_env \<Rightarrow> 'd media_file \<Rightarrow> string \<Rightarrow> py_error + string" where
  "append_mtime env self thumbnail_url' =
     (case field_path env (file_mf self) of
        Inl e \<Rightarrow> Inl e
      | Inr path \<Rightarrow>
          (case getmtime env path of
             Inl e \<Rightarrow> Inl e
           | Inr t \<Rightarrow> Inr (thumbnail_url' @ ''?'' @ str_float env t)))"

text \<open>\<open>try: ... except OSError: logger.error(...)\<close>: an \<open>OSError\<close> leaves the variable as
  it was, any other exception of \<open>self.file.path\<close> or of \<open>getmtime\<close> propagates.\<close>

definition cache_busted :: "('f, 'd) media_env \<Rightarrow> 'd media_file \<Rightarrow> string option \<Rightarrow> py_error + string option" where
  "cache_busted env self thumbnail_url' =
     (case thumbnail_url' of
        None \<Rightarrow> Inr None
      | Some u \<Rightarrow>
          if u = [] then Inr (Some u)
          else (case append_mtime env self u of
                  Inl e \<Rightarrow> if e = OSError then Inr (Some u) else Inl e
                | Inr u' \<Rightarrow> Inr (Some u')))"

definition serialize :: "('f, 'd) media_env \<Rightarrow> 'd media_file \<Rightarrow> py_error + (string \<times> pyval) list" where
  "serialize env self =
     (case thumbnail_url env self of
        Inl e \<Rightarrow> Inl e
      | Inr thumbnail_url0 \<Rightarrow>
     (case cache_busted env self thumbnail_url0 of
        Inl e \<Rightarrow> Inl e
      | Inr thumbnail_url' \<Rightarrow>
     (case url env self of
        Inl e \<Rightarrow> Inl e
      | Inr url' \<Rightarrow>
          Inr [(''id'', of_pk (id_mf self)),
               (''name'', PStr (name self)),
               (''altText'', PStr (alt_text self)),
               (''type'', PStr (type self)),
               (''typeDisplay'', PStr (get_type_display env self)),
               (''thumbnailUrl'', of_str_option thumbnail_url'),
               (''url'', of_str_option url'),
               (''uploadedDate'', PStr (localize_localtime env (uploaded_date self))),
               (''isGlobal'', PBool (region self = None))])))"

section \<open>Pages: \<open>cms/models/pages/abstract_base_page.py\<close>\<close>

record abstract_base_page =
  explicitly_archived :: bool

text \<open>The property \<open>AbstractBasePage.archived\<close>.\<close>

definition archived :: "abstract_base_page \<Rightarrow> bool" where
  "archived self = explicitly_archived self"

section \<open>Sites: \<open>backend/cms/models/site.py\<close>\<close>






text \<open>
  \<open>site.py\<close> declares the model only.  The form that creates and updates the sites and
  the data layer that stores them are missing from the sources; \<open>cms/_tests.py\<close> creates
  a region from its data, status included, with \<open>RegionForm\<close>, \<open>is_valid\<close> and \<open>save\<close>.
\<close>








section \<open>The migration \<open>0005_grant_imprint_deletion_permission.py\<close>\<close>

text \<open>
  The two tables of \<open>django.contrib.auth\<close> the migration touches: the permissions, and
  for each group name (unique) the set of the ids of the permissions the group holds.
\<close>

record permission =
  id_permission :: int
  codename :: string

record auth_tables =
  group_permissions :: "string \<rightharpoonup> int set"
  permissions :: "permission list"

text \<open>\<open>objects.get\<close>: exactly one row must match.\<close>

definition get_where :: "('a \<Rightarrow> bool) \<Rightarrow> 'a list \<Rightarrow> py_error + 'a" where
  "get_where P rows =
     (case filter P rows of
        [] \<Rightarrow> Inl DoesNotExist
      | [x] \<Rightarrow> Inr x
      | _ # _ # _ \<Rightarrow> Inl MultipleObjectsReturned)"

definition add_roles :: "auth_tables \<Rightarrow> py_error + auth_tables" where
  "add_roles db =
     (case group_permissions db ''MANAGEMENT'' of
        None \<Rightarrow> Inl DoesNotExist
      | Some management_permissions \<Rightarrow>
          (case get_where (\<lambda>p. codename p = ''delete_imprintpage'') (permissions db) of
             Inl e \<Rightarrow> Inl e
           | Inr delete_imprint_permission \<Rightarrow>
               Inr (db\<lparr>group_permissions := (group_permissions db)
                      (''MANAGEMENT'' \<mapsto>
                         insert (id_permission delete_imprint_permission) management_permissions)\<rparr>)))"

definition remove_roles :: "auth_tables \<Rightarrow> py_error + auth_tables" where
  "remove_roles db =
     (case group_permissions db ''MANAGEMENT'' of
        None \<Rightarrow> Inl DoesNotExist
      | Some management_permissions \<Rightarrow>
          (case get_where (\<lambda>p. codename p = ''delete_imprintpage'') (permissions db) of
             Inl e \<Rightarrow> Inl e
           | Inr delete_imprint_permission \<Rightarrow>
               Inr (db\<lparr>group_permissions := (group_permissions db)
                      (''MANAGEMENT'' \<mapsto>
                         management_permissions - {id_permission delete_imprint_permission})\<rparr>)))"

text \<open>Whether a group holds a permission of the given codename.\<close>

definition holds :: "auth_tables \<Rightarrow> string \<Rightarrow> string \<Rightarrow> bool" where
  "holds db group_name code =
     (case group_permissions db group_name of
        None \<Rightarrow> False
      | Some ps \<Rightarrow> list_ex (\<lambda>p. codename p = code \<and> id_permission p \<in> ps) (permissions db))"

section \<open>Language trees\<close>

text \<open>
  The modules of the \<open>LanguageTreeNode\<close> model and of the \<open>LanguageTreeNodeForm\<close> are
  missing from the sources.  \<open>cms/_tests.py\<close> uses them: it creates a node from a
  language, a parent (or \<open>None\<close>) and an active flag, in a region, with \<open>is_valid\<close>
  followed by \<open>save_language_node\<close>.
\<close>

text \<open>Modelled from the spec: the \<open>LanguageTreeNode\<close> model, whose module is missing.  A
  language node belongs to exactly one region, optionally has a parent node, and carries
  an active flag.\<close>

record language_tree_node =
  language :: nat
  parent :: "nat option"
  region_node :: nat
  active :: bool

text \<open>Modelled from the spec: the table of the nodes, whose data layer is missing: the rows
  with their primary keys.\<close>

type_synonym node_table = "(nat \<times> language_tree_node) list"

text \<open>Modelled from the spec: the primary key the missing data layer gives to a new row.\<close>

definition new_pk :: "node_table \<Rightarrow> nat" where
  "new_pk t = Suc (fold max (map fst t) 0)"

text \<open>Modelled from the spec: the \<open>save\<close> of the missing data layer.  It inserts the node
  under a new primary key, or overwrites the row of the given key; the invariant of the
  tree is not enforced by the data layer itself.\<close>

definition save_node :: "node_table \<Rightarrow> nat option \<Rightarrow> language_tree_node \<Rightarrow> node_table" where
  "save_node t instance_pk node =
     (case instance_pk of
        None \<Rightarrow> t @ [(new_pk t, node)]
      | Some k \<Rightarrow>
          if k \<in> set (map fst t)
          then map (\<lambda>(k', node'). if k' = k then (k', node) else (k', node')) t
          else t @ [(k, node)])"

text \<open>Modelled from the spec: the walk along the parents that the missing form validation
  needs to check that the tree is acyclic.  Following the parents from a node arrives,
  within the given number of steps, at a node without a parent.\<close>

fun reaches_root :: "node_table \<Rightarrow> nat \<Rightarrow> nat \<Rightarrow> bool" where
  "reaches_root t 0 k = False"
| "reaches_root t (Suc fuel) k =
     (case map_of t k of
        None \<Rightarrow> False
      | Some node \<Rightarrow> (case parent node of None \<Rightarrow> True | Some p \<Rightarrow> reaches_root t fuel p))"

text \<open>Modelled from the spec: the check of the missing form validation that the tree is
  acyclic: every node arrives at a node without a parent.\<close>

definition acyclic_tree :: "node_table \<Rightarrow> bool" where
  "acyclic_tree t = list_all (\<lambda>(k, node). reaches_root t (length t) k) t"

text \<open>Modelled from the spec: the nodes without a parent of a region, which the missing
  form validation counts.\<close>

definition roots_of :: "node_table \<Rightarrow> nat \<Rightarrow> (nat \<times> language_tree_node) list" where
  "roots_of t r = filter (\<lambda>(k, node). region_node node = r \<and> parent node = None) t"

text \<open>Modelled from the spec: the check of the missing form validation that the tree is
  single-rooted per region: the region of every node has exactly one node without a
  parent.\<close>

definition single_rooted :: "node_table \<Rightarrow> bool" where
  "single_rooted t = list_all (\<lambda>(k, node). length (roots_of t (region_node node)) = 1) t"

text \<open>Modelled from the spec: the two checks of the missing form validation together: the
  tree must be acyclic and single-rooted per region.\<close>

definition tree_ok :: "node_table \<Rightarrow> bool" where
  "tree_ok t = (acyclic_tree t \<and> single_rooted t)"

text \<open>Modelled from the spec: the \<open>LanguageTreeNodeForm\<close>, whose module is missing.  A
  submission names the node it edits (\<open>None\<close> to create one) and carries the cleaned
  data.\<close>

record language_tree_node_form =
  instance_pk :: "nat option"
  cleaned_data :: language_tree_node

text \<open>Modelled from the spec: \<open>is_valid\<close> of the missing form.  The invariant is enforced by
  form validation: the form is valid when the tree with the node saved is acyclic and
  single-rooted per region.\<close>

definition is_valid :: "node_table \<Rightarrow> language_tree_node_form \<Rightarrow> bool" where
  "is_valid t form = tree_ok (save_node t (instance_pk form) (cleaned_data form))"

text \<open>Modelled from the spec: \<open>save_language_node\<close> of the missing form.  A valid form
  saves its node, an invalid one is refused with a validation error.\<close>

definition save_language_node :: "node_table \<Rightarrow> language_tree_node_form \<Rightarrow> py_error + node_table" where
  "save_language_node t form =
     (if is_valid t form
      then Inr (save_node t (instance_pk form) (cleaned_data form))
      else Inl ValidationError)"

text \<open>Modelled from the spec: a sequence of submissions of the missing form; a submission
  that does not validate is refused and leaves the table as it is.\<close>

fun submit_all :: "node_table \<Rightarrow> language_tree_node_form list \<Rightarrow> node_table" where
  "submit_all t [] = t"
| "submit_all t (form # forms) =
     (case save_language_node t form of
        Inl e \<Rightarrow> submit_all t forms
      | Inr t' \<Rightarrow> submit_all t' forms)"

text \<open>Modelled from the spec: the parent relation of the tree, which the missing model
  stores in the parent field of the nodes.\<close>

definition parent_rel :: "node_table \<Rightarrow> (nat \<times> nat) set" where
  "parent_rel t = {(k, p). \<exists>node. (k, node) \<in> set t \<and> parent node = Some p}"

text \<open>Modelled from the spec: a root of a region of the missing model, a node of the region
  with no parent.\<close>

definition is_root :: "node_table \<Rightarrow> nat \<Rightarrow> nat \<Rightarrow> bool" where
  "is_root t r k = (\<exists>node. (k, node) \<in> set t \<and> region_node node = r \<and> parent node = None)"

text \<open>Modelled from the spec: the invariant of the missing model, in the words of the spec.
  The tree is acyclic, and every region that has a node has exactly one node with no
  parent.\<close>

definition language_tree_invariant :: "node_table \<Rightarrow> bool" where
  "language_tree_invariant t =
     (acyclic (parent_rel t) \<and> (\<forall>(k, node) \<in> set t. \<exists>!k'. is_root t (region_node node) k'))"

section \<open>Example values\<close>

definition example_now :: struct_time where
  "example_now = \<lparr>tm_year = 2024, tm_mon = 3\<rparr>"

definition example_upload :: "nat media_file" where
  "example_upload =
     \<lparr>id_mf = None, file_mf = Some ''a.jpg'', thumbnail = None, type = ''image/jpeg'',
      name = ''a'', region = Some \<lparr>id_region = Some 7\<rparr>, alt_text = [],
      uploaded_date = 0\<rparr>"

definition example_stored :: "nat media_file" where
  "example_stored =
     \<lparr>id_mf = Some 5, file_mf = Some ''sites/7/2023/01/a.jpg'',
      thumbnail = Some ''sites/7/2023/01/a_thumbnail.jpg'', type = ''image/jpeg'',
      name = ''a'', region = Some \<lparr>id_region = Some 7\<rparr>, alt_text = [],
      uploaded_date = 0\<rparr>"

definition example_env :: "(nat, nat) media_env" where
  "example_env =
     \<lparr>BASE_URL = ''https://cms'', storage_url = (\<lambda>n. ''/media/'' @ n),
      storage_path = (\<lambda>n. if take 3 n = ''../'' then Inl SuspiciousFileOperation
                           else Inr (''/var/media/'' @ n)),
      getmtime = (\<lambda>p. if CHR 0x00 \<in> set p then Inl ValueError
                       else if p = ''/var/media/b.jpg'' then Inr 17
                       else Inl OSError),
      str_float = str_nat, CHOICES = [(''image/jpeg'', ''JPEG image'')],
      localize_localtime = str_nat\<rparr>"

definition example_auth :: auth_tables where
  "example_auth =
     \<lparr>group_permissions = [''MANAGEMENT'' \<mapsto> {1}],
      permissions = [\<lparr>id_permission = 1, codename = ''view_imprintpage''\<rparr>,
                     \<lparr>id_permission = 2, codename = ''delete_imprintpage''\<rparr>]\<rparr>"

definition english :: language_tree_node where
  "english = \<lparr>language = 1, parent = None, region_node = 1, active = True\<rparr>"

definition deutsch :: language_tree_node where
  "deutsch = \<lparr>language = 2, parent = Some 1, region_node = 1, active = True\<rparr>"


section \<open>Upload paths\<close>

text \<open>
  C1. For a media file that is already in the database (its \<open>id\<close> is set, that is truthy:
  the primary keys of stored rows are not zero) and whose stored row has a non-empty
  file, \<open>upload_path\<close> returns the stored file name, whatever the new file name and the
  time: once persisted, the upload path is stable across re-saves.
\<close>

theorem upload_path_stable:
  assumes "id_mf instance = Some i" and "i \<noteq> 0"
    and "objects i = Some original_instance"
    and "file_mf original_instance = Some stored" and "stored \<noteq> []"
  shows "upload_path now objects instance filename = Inr stored \<and>
         upload_path now' objects instance filename' = upload_path now objects instance filename"
  using assms
  by (simp add: upload_path_def truthy_pk_def objects_get_def truthy_file_def file_name_def)

theorem upload_path_stable_witness:
  "id_mf example_stored = Some 5 \<and> (5::int) \<noteq> 0 \<and>
   [5 \<mapsto> example_stored] 5 = Some example_stored \<and>
   file_mf example_stored = Some ''sites/7/2023/01/a.jpg'' \<and>
   upload_path example_now [5 \<mapsto> example_stored] example_stored ''b.jpg''
     = Inr ''sites/7/2023/01/a.jpg''"
  using upload_path_stable [of example_stored 5 "[5 \<mapsto> example_stored]" example_stored
      "''sites/7/2023/01/a.jpg''" example_now "''b.jpg''" example_now "''b.jpg''"]
  by (simp add: example_stored_def)

text \<open>
  C3. For a media file that is not in the database yet, \<open>upload_path\<close> returns
  \<open>sites/<region id>/<year>/<month>/<filename>\<close> when the file has a region, and
  \<open><year>/<month>/<filename>\<close> when it has none.
\<close>

theorem upload_path_unpersisted:
  assumes "\<not> truthy_pk (id_mf instance)"
  shows "(\<forall>r. region instance = Some r \<longrightarrow>
            upload_path now objects instance filename =
              Inr (''sites/'' @ str_pk (id_region r) @ ''/'' @
                   strftime_Y now @ ''/'' @ strftime_m now @ ''/'' @ filename)) \<and>
         (region instance = None \<longrightarrow>
            upload_path now objects instance filename =
              Inr (strftime_Y now @ ''/'' @ strftime_m now @ ''/'' @ filename))"
  using assms
  by (simp add: upload_path_def new_upload_path_def region_directory_def strftime_Ym_def)

theorem upload_path_unpersisted_witness:
  "\<not> truthy_pk (id_mf example_upload) \<and>
   region example_upload = Some \<lparr>id_region = Some 7\<rparr> \<and>
   upload_path example_now Map.empty example_upload ''b.jpg'' = Inr ''sites/7/2024/03/b.jpg'' \<and>
   region (example_upload\<lparr>region := None\<rparr>) = None \<and>
   upload_path example_now Map.empty (example_upload\<lparr>region := None\<rparr>) ''b.jpg''
     = Inr ''2024/03/b.jpg''"
  using upload_path_unpersisted [of example_upload example_now Map.empty "''b.jpg''"]
    upload_path_unpersisted [of "example_upload\<lparr>region := None\<rparr>" example_now Map.empty "''b.jpg''"]
  by (simp add: example_upload_def example_now_def truthy_pk_def str_pk_def str_int_def
      strftime_Y_def strftime_m_def str_nat.simps digit_char_def)

section \<open>The extension of a path\<close>

lemma rfind_from_append:
  "rfind_from c (xs @ ys) i found = rfind_from c ys (i + int (length xs)) (rfind_from c xs i found)"
  by (induction xs arbitrary: i found) (simp_all add: add.assoc)

lemma rfind_from_absent: "c \<notin> set xs \<Longrightarrow> rfind_from c xs i found = found"
  by (induction xs arbitrary: i found) auto

lemma rfind_from_bounds:
  "c \<in> set xs \<Longrightarrow> i \<le> rfind_from c xs i found \<and> rfind_from c xs i found < i + int (length xs)"
proof (induction xs arbitrary: i found)
  case Nil
  then show ?case by simp
next
  case (Cons x xs)
  show ?case
  proof (cases "c \<in> set xs")
    case True
    from Cons.IH [OF True, of "i + 1" "if x = c then i else found"]
    show ?thesis by simp
  next
    case False
    with Cons.prems have "x = c" by simp
    with False show ?thesis by (simp add: rfind_from_absent)
  qed
qed

lemma rfind_from_shift:
  "c \<in> set xs \<Longrightarrow> rfind_from c xs (i + k) found = k + rfind_from c xs i found'"
proof (induction xs arbitrary: i found found')
  case Nil
  then show ?case by simp
next
  case (Cons x xs)
  show ?case
  proof (cases "c \<in> set xs")
    case True
    from Cons.IH [OF True, of "i + 1" "if x = c then i + k else found" "if x = c then i else found'"]
    show ?thesis by (simp add: add.assoc add.commute add.left_commute)
  next
    case False
    with Cons.prems have "x = c" by simp
    with False show ?thesis by (simp add: rfind_from_absent)
  qed
qed

lemma rfind_absent: "c \<notin> set p \<Longrightarrow> rfind p c = - 1"
  by (simp add: rfind_def rfind_from_absent)

lemma rfind_bounds: "c \<in> set p \<Longrightarrow> 0 \<le> rfind p c \<and> rfind p c < int (length p)"
  using rfind_from_bounds [of c p 0 "- 1"] by (simp add: rfind_def)

lemma rfind_less_length: "rfind p c < int (length p)"
  using rfind_bounds [of c p] rfind_absent [of c p] by (cases "c \<in> set p") auto

lemma rfind_append_present:
  "c \<in> set f \<Longrightarrow> rfind (pre @ f) c = int (length pre) + rfind f c"
  using rfind_from_shift [of c f 0 "int (length pre)" "rfind_from c pre 0 (- 1)" "- 1"]
  by (simp add: rfind_def rfind_from_append)

lemma rfind_append_absent: "c \<notin> set f \<Longrightarrow> rfind (pre @ f) c = rfind pre c"
  by (simp add: rfind_def rfind_from_append rfind_from_absent)

lemma rfind_snoc: "rfind (d @ [c]) c = int (length d)"
  by (simp add: rfind_def rfind_from_append)

lemma skip_leading_dots_shift:
  "0 \<le> i \<Longrightarrow> 0 \<le> j \<Longrightarrow>
   skip_leading_dots (pre @ f) (int (length pre) + i) (int (length pre) + j) =
     map_option (\<lambda>(a, b). (pre @ a, b)) (skip_leading_dots f i j)"
proof (induction f i j rule: skip_leading_dots.induct)
  case (1 p filenameIndex dotIndex)
  have n1: "nat (int (length pre) + filenameIndex) = length pre + nat filenameIndex"
    using "1.prems" by (simp add: nat_add_distrib)
  have n2: "nat (int (length pre) + dotIndex) = length pre + nat dotIndex"
    using "1.prems" by (simp add: nat_add_distrib)
  show ?case
  proof (cases "filenameIndex < dotIndex")
    case False
    then show ?thesis
      by (simp add: skip_leading_dots.simps [of p] skip_leading_dots.simps [of "pre @ p"])
  next
    case lt: True
    show ?thesis
    proof (cases "take 1 (drop (nat filenameIndex) p) \<noteq> ''.''")
      case True
      with lt show ?thesis
        by (simp add: skip_leading_dots.simps [of p] skip_leading_dots.simps [of "pre @ p"] n1 n2)
    next
      case False
      from "1.IH" [OF lt False] "1.prems"
      have "skip_leading_dots (pre @ p) (int (length pre) + (filenameIndex + 1)) (int (length pre) + dotIndex) =
            map_option (\<lambda>(a, b). (pre @ a, b)) (skip_leading_dots p (filenameIndex + 1) dotIndex)"
        by simp
      with lt False show ?thesis
        by (simp add: skip_leading_dots.simps [of p filenameIndex]
            skip_leading_dots.simps [of "pre @ p" "int (length pre) + filenameIndex"] n1 add.assoc)
    qed
  qed
qed

lemma skip_leading_dots_parts:
  "skip_leading_dots p i j = Some (a, b) \<Longrightarrow> a @ b = p"
proof (induction p i j rule: skip_leading_dots.induct)
  case (1 p filenameIndex dotIndex)
  then show ?case
    by (auto simp: skip_leading_dots.simps [of p filenameIndex] split: if_splits)
qed

lemma splitext_parts: "fst (splitext p) @ snd (splitext p) = p"
  by (auto simp: splitext_def Let_def skip_leading_dots_parts split: option.splits)

lemma splitext_append:
  assumes "CHR ''/'' \<notin> set f"
    and sep_pre: "rfind pre CHR ''/'' = int (length pre) - 1"
    and dot_pre: "rfind pre CHR ''.'' < int (length pre) - 1"
  shows "splitext (pre @ f) = (pre @ fst (splitext f), snd (splitext f))"
proof -
  have sep: "rfind (pre @ f) CHR ''/'' = int (length pre) - 1"
    using assms(1) sep_pre by (simp add: rfind_append_absent)
  have sepf: "rfind f CHR ''/'' = - 1"
    using assms(1) by (rule rfind_absent)
  show ?thesis
  proof (cases "CHR ''.'' \<in> set f")
    case False
    have "rfind (pre @ f) CHR ''.'' < int (length pre) - 1"
      using False dot_pre by (simp add: rfind_append_absent)
    moreover have "rfind f CHR ''.'' = - 1"
      using False by (rule rfind_absent)
    ultimately show ?thesis
      using sep sepf unfolding splitext_def Let_def by simp
  next
    case True
    define j where "j = rfind f CHR ''.''"
    have dot: "rfind (pre @ f) CHR ''.'' = int (length pre) + j"
      unfolding j_def using True by (rule rfind_append_present)
    have nonneg: "0 \<le> j"
      unfolding j_def using rfind_bounds [OF True] by simp
    have "skip_leading_dots (pre @ f) (int (length pre) + 0) (int (length pre) + j) =
        map_option (\<lambda>(a, b). (pre @ a, b)) (skip_leading_dots f 0 j)"
      using nonneg by (intro skip_leading_dots_shift) simp_all
    then have shift: "skip_leading_dots (pre @ f) (int (length pre)) (int (length pre) + j) =
        map_option (\<lambda>(a, b). (pre @ a, b)) (skip_leading_dots f 0 j)"
      by simp
    have big: "splitext (pre @ f) =
       (case skip_leading_dots (pre @ f) (int (length pre)) (int (length pre) + j) of
          Some r \<Rightarrow> r | None \<Rightarrow> (pre @ f, []))"
      unfolding splitext_def Let_def sep dot using nonneg by simp
    have small: "splitext f = (case skip_leading_dots f 0 j of Some r \<Rightarrow> r | None \<Rightarrow> (f, []))"
      unfolding splitext_def Let_def sepf j_def [symmetric] using nonneg by simp
    show ?thesis
      unfolding big small shift by (simp split: option.splits prod.splits)
  qed
qed

lemma splitext_directory:
  assumes "CHR ''/'' \<notin> set f"
  shows "splitext (d @ ''/'' @ f) = (d @ ''/'' @ fst (splitext f), snd (splitext f))"
proof -
  have "rfind (d @ ''/'') CHR ''/'' = int (length (d @ ''/'')) - 1"
    using rfind_snoc [of d "CHR ''/''"] by simp
  moreover have "rfind (d @ ''/'') CHR ''.'' < int (length (d @ ''/'')) - 1"
    using rfind_append_absent [of "CHR ''.''" "''/''" d] rfind_less_length [of d "CHR ''.''"]
    by simp
  ultimately have "splitext ((d @ ''/'') @ f) = ((d @ ''/'') @ fst (splitext f), snd (splitext f))"
    using assms by (intro splitext_append)
  then show ?thesis
    by simp
qed

section \<open>The upload path of a thumbnail\<close>

text \<open>
  C2. For a media file that is not in the database yet and whose file has a name,
  \<open>upload_path_thumbnail\<close> returns that name with \<open>_thumbnail\<close> put before its extension.
  The result is the same for every \<open>filename\<close> argument, every region and every table; the
  region id and the date enter it only through the name of the file: when that name is
  the path \<open>upload_path\<close> returns for a file name without \<open>/\<close>, the thumbnail path lies
  in the same \<open>sites/<region id>/<year>/<month>/\<close> directory.
\<close>

theorem upload_path_thumbnail_from_file_name:
  assumes "\<not> truthy_pk (id_mf instance)" and "file_mf instance = Some n"
  shows "upload_path_thumbnail objects instance filename =
           Inr (fst (splitext n) @ ''_thumbnail'' @ snd (splitext n)) \<and>
         fst (splitext n) @ snd (splitext n) = n \<and>
         upload_path_thumbnail objects' (instance\<lparr>region := r\<rparr>) filename' =
           upload_path_thumbnail objects instance filename \<and>
         (\<forall>now f. CHR ''/'' \<notin> set f \<and> upload_path now objects instance f = Inr n \<longrightarrow>
            upload_path_thumbnail objects instance filename =
              Inr (region_directory instance @ strftime_Ym now @ ''/'' @
                   fst (splitext f) @ ''_thumbnail'' @ snd (splitext f)))"
proof -
  have derived: "upload_path_thumbnail objects instance filename =
      Inr (fst (splitext n) @ ''_thumbnail'' @ snd (splitext n))"
    using assms
    by (simp add: upload_path_thumbnail_def derived_thumbnail_path_def split: prod.splits)
  have same: "upload_path_thumbnail objects' (instance\<lparr>region := r\<rparr>) filename' =
      upload_path_thumbnail objects instance filename"
    using assms by (simp add: upload_path_thumbnail_def derived_thumbnail_path_def)
  have directory: "upload_path_thumbnail objects instance filename =
      Inr (region_directory instance @ strftime_Ym now @ ''/'' @
           fst (splitext f) @ ''_thumbnail'' @ snd (splitext f))"
    if slash: "CHR ''/'' \<notin> set f" and up: "upload_path now objects instance f = Inr n" for now f
  proof -
    from up assms(1)
    have n: "n = (region_directory instance @ strftime_Ym now) @ ''/'' @ f"
      by (simp add: upload_path_def new_upload_path_def)
    have "splitext n =
        ((region_directory instance @ strftime_Ym now) @ ''/'' @ fst (splitext f), snd (splitext f))"
      by (simp only: n splitext_directory [OF slash])
    with derived show ?thesis
      by simp
  qed
  show ?thesis
    using derived same directory splitext_parts [of n] by blast
qed

theorem upload_path_thumbnail_from_file_name_witness:
  "\<not> truthy_pk (id_mf (example_upload\<lparr>file_mf := Some ''sites/7/2024/03/b.tar.gz''\<rparr>)) \<and>
   file_mf (example_upload\<lparr>file_mf := Some ''sites/7/2024/03/b.tar.gz''\<rparr>)
     = Some ''sites/7/2024/03/b.tar.gz'' \<and>
   CHR ''/'' \<notin> set ''b.tar.gz'' \<and>
   upload_path example_now Map.empty
       (example_upload\<lparr>file_mf := Some ''sites/7/2024/03/b.tar.gz''\<rparr>) ''b.tar.gz''
     = Inr ''sites/7/2024/03/b.tar.gz'' \<and>
   upload_path_thumbnail Map.empty
       (example_upload\<lparr>file_mf := Some ''sites/7/2024/03/b.tar.gz''\<rparr>) ''x''
     = Inr ''sites/7/2024/03/b.tar_thumbnail.gz''"
proof -
  let ?m = "example_upload\<lparr>file_mf := Some ''sites/7/2024/03/b.tar.gz''\<rparr>"
  have h1: "\<not> truthy_pk (id_mf ?m)"
    by (simp add: example_upload_def truthy_pk_def)
  have h2: "file_mf ?m = Some ''sites/7/2024/03/b.tar.gz''"
    by simp
  have h3: "CHR ''/'' \<notin> set ''b.tar.gz''"
    by simp
  have h4: "upload_path example_now Map.empty ?m ''b.tar.gz'' = Inr ''sites/7/2024/03/b.tar.gz''"
    by (simp add: upload_path_def new_upload_path_def region_directory_def strftime_Ym_def
        example_upload_def example_now_def truthy_pk_def str_pk_def str_int_def
        strftime_Y_def strftime_m_def str_nat.simps digit_char_def)
  have ext: "splitext ''b.tar.gz'' = (''b.tar'', ''.gz'')"
    by (simp add: splitext_def rfind_def skip_leading_dots.simps)
  have dir: "region_directory ?m @ strftime_Ym example_now = ''sites/7/2024/03''"
    by (simp add: region_directory_def strftime_Ym_def example_upload_def example_now_def
        str_pk_def str_int_def strftime_Y_def strftime_m_def str_nat.simps digit_char_def)
  from upload_path_thumbnail_from_file_name [OF h1 h2, of Map.empty "''x''" Map.empty None "''x''"]
  have "\<forall>now f. CHR ''/'' \<notin> set f \<and> upload_path now Map.empty ?m f = Inr ''sites/7/2024/03/b.tar.gz'' \<longrightarrow>
      upload_path_thumbnail Map.empty ?m ''x'' =
        Inr (region_directory ?m @ strftime_Ym now @ ''/'' @
             fst (splitext f) @ ''_thumbnail'' @ snd (splitext f))"
    by blast
  with h3 h4 have "upload_path_thumbnail Map.empty ?m ''x'' =
      Inr (region_directory ?m @ strftime_Ym example_now @ ''/'' @
           fst (splitext ''b.tar.gz'') @ ''_thumbnail'' @ snd (splitext ''b.tar.gz''))"
    by blast
  then have "upload_path_thumbnail Map.empty ?m ''x'' =
      Inr ((region_directory ?m @ strftime_Ym example_now) @ ''/'' @
           fst (splitext ''b.tar.gz'') @ ''_thumbnail'' @ snd (splitext ''b.tar.gz''))"
    by (simp only: append_assoc)
  then have "upload_path_thumbnail Map.empty ?m ''x'' = Inr ''sites/7/2024/03/b.tar_thumbnail.gz''"
    unfolding dir ext by simp
  with h1 h2 h3 h4 show ?thesis
    by simp
qed

text \<open>
  The thumbnail path is not computed from the region id and the date: a new file of
  region 7, uploaded in March 2024 under the name \<open>a.jpg\<close>, gets the thumbnail path
  \<open>a_thumbnail.jpg\<close>, as the same file without a region does, while its own upload path
  would be \<open>sites/7/2024/03/b.jpg\<close>.
\<close>

theorem upload_path_thumbnail_counterexample:
  "id_mf example_upload = None \<and>
   region example_upload = Some \<lparr>id_region = Some 7\<rparr> \<and>
   upload_path example_now Map.empty example_upload ''b.jpg'' = Inr ''sites/7/2024/03/b.jpg'' \<and>
   upload_path_thumbnail Map.empty example_upload ''b.jpg'' = Inr ''a_thumbnail.jpg'' \<and>
   upload_path_thumbnail Map.empty (example_upload\<lparr>region := None\<rparr>) ''b.jpg''
     = Inr ''a_thumbnail.jpg''"
  by (simp add: upload_path_def upload_path_thumbnail_def derived_thumbnail_path_def
      new_upload_path_def region_directory_def strftime_Ym_def
      example_upload_def example_now_def truthy_pk_def str_pk_def str_int_def
      strftime_Y_def strftime_m_def str_nat.simps digit_char_def
      splitext_def rfind_def skip_leading_dots.simps)

section \<open>URLs and serialization of a media file\<close>

lemma url_returns:
  "url env self =
     Inr (if truthy_file (file_mf self)
          then Some (BASE_URL env @ storage_url env (file_name (file_mf self))) else None)"
  by (simp add: url_def field_url_def)

lemma thumbnail_url_returns: "\<exists>r. thumbnail_url env self = Inr r"
  by (simp add: thumbnail_url_def url_returns field_url_def)

lemma url_getmtime: "url (env\<lparr>getmtime := g\<rparr>) self = url env self"
  by (simp add: url_returns)

lemma thumbnail_url_getmtime:
  "thumbnail_url (env\<lparr>getmtime := g\<rparr>) self = thumbnail_url env self"
  by (simp add: thumbnail_url_def url_returns field_url_def)

lemma get_type_display_getmtime:
  "get_type_display (env\<lparr>getmtime := g\<rparr>) self = get_type_display env self"
  by (simp add: get_type_display_def)

lemma field_path_getmtime: "field_path (env\<lparr>getmtime := g\<rparr>) f = field_path env f"
  by (simp add: field_path_def)

lemma cache_busted_not_OSError: "cache_busted env self tu \<noteq> Inl OSError"
  by (simp add: cache_busted_def split: option.splits sum.splits)

lemma serialize_not_OSError: "serialize env self \<noteq> Inl OSError"
  using cache_busted_not_OSError [of env self] thumbnail_url_returns [of env self]
    url_returns [of env self]
  by (auto simp: serialize_def split: sum.splits)

lemma cache_busted_OSError:
  assumes "field_path env (file_mf self) = Inr path" and "getmtime env path = Inl OSError"
  shows "cache_busted env self tu = Inr tu"
  using assms
  by (simp add: cache_busted_def append_mtime_def split: option.splits)

lemma cache_busted_mtime:
  assumes "field_path env (file_mf self) = Inr path" and "g path = Inr t"
  shows "cache_busted (env\<lparr>getmtime := g\<rparr>) self tu =
           Inr (case tu of
                  None \<Rightarrow> None
                | Some x \<Rightarrow> if x = [] then Some x else Some (x @ ''?'' @ str_float env t))"
  using assms
  by (simp add: cache_busted_def append_mtime_def field_path_getmtime split: option.splits)

text \<open>
  C8. With no thumbnail set, \<open>thumbnail_url\<close> is the file's \<open>url\<close> when the type starts
  with \<open>image\<close> and \<open>None\<close> otherwise; with a thumbnail set it is \<open>BASE_URL\<close> followed by the
  thumbnail's url.  Neither property raises.
\<close>

theorem thumbnail_url_cases:
  "(\<not> truthy_file (thumbnail self) \<and> startswith (type self) ''image'' \<longrightarrow>
      thumbnail_url env self = url env self) \<and>
   (\<not> truthy_file (thumbnail self) \<and> \<not> startswith (type self) ''image'' \<longrightarrow>
      thumbnail_url env self = Inr None) \<and>
   (truthy_file (thumbnail self) \<longrightarrow>
      field_url env (thumbnail self) = Inr (storage_url env (file_name (thumbnail self))) \<and>
      thumbnail_url env self =
        Inr (Some (BASE_URL env @ storage_url env (file_name (thumbnail self))))) \<and>
   (\<exists>r. url env self = Inr r) \<and> (\<exists>r. thumbnail_url env self = Inr r)"
  by (simp add: thumbnail_url_def url_returns field_url_def)

theorem thumbnail_url_cases_witness:
  "\<not> truthy_file (thumbnail example_upload) \<and> startswith (type example_upload) ''image'' \<and>
   thumbnail_url example_env example_upload = Inr (Some ''https://cms/media/a.jpg'') \<and>
   \<not> startswith (type (example_upload\<lparr>type := ''application/pdf''\<rparr>)) ''image'' \<and>
   thumbnail_url example_env (example_upload\<lparr>type := ''application/pdf''\<rparr>) = Inr None \<and>
   truthy_file (thumbnail example_stored) \<and>
   thumbnail_url example_env example_stored
     = Inr (Some ''https://cms/media/sites/7/2023/01/a_thumbnail.jpg'')"
  using thumbnail_url_cases [of example_upload example_env]
    thumbnail_url_cases [of "example_upload\<lparr>type := ''application/pdf''\<rparr>" example_env]
    thumbnail_url_cases [of example_stored example_env]
  by (simp add: example_upload_def example_stored_def example_env_def truthy_file_def
      startswith_def url_returns file_name_def)

text \<open>
  C5. A region of \<open>None\<close> means the file is global: every dictionary \<open>serialize\<close>
  returns has the nine keys of the record, and its \<open>isGlobal\<close> entry is true exactly when
  the file has no region.
\<close>

theorem serialize_isGlobal:
  "\<forall>d. serialize env self = Inr d \<longrightarrow>
     map_of d ''isGlobal'' = Some (PBool (region self = None)) \<and>
     map fst d = [''id'', ''name'', ''altText'', ''type'', ''typeDisplay'', ''thumbnailUrl'',
                  ''url'', ''uploadedDate'', ''isGlobal'']"
  by (auto simp: serialize_def split: sum.splits)

theorem serialize_isGlobal_witness:
  "serialize example_env example_upload =
     Inr [(''id'', PNone), (''name'', PStr ''a''), (''altText'', PStr []),
          (''type'', PStr ''image/jpeg''), (''typeDisplay'', PStr ''JPEG image''),
          (''thumbnailUrl'', PStr ''https://cms/media/a.jpg''),
          (''url'', PStr ''https://cms/media/a.jpg''),
          (''uploadedDate'', PStr ''0''), (''isGlobal'', PBool False)] \<and>
   region example_upload = Some \<lparr>id_region = Some 7\<rparr> \<and>
   serialize example_env (example_upload\<lparr>region := None\<rparr>) =
     Inr [(''id'', PNone), (''name'', PStr ''a''), (''altText'', PStr []),
          (''type'', PStr ''image/jpeg''), (''typeDisplay'', PStr ''JPEG image''),
          (''thumbnailUrl'', PStr ''https://cms/media/a.jpg''),
          (''url'', PStr ''https://cms/media/a.jpg''),
          (''uploadedDate'', PStr ''0''), (''isGlobal'', PBool True)] \<and>
   region (example_upload\<lparr>region := None\<rparr>) = None"
proof -
  let ?d = "\<lambda>g. [(''id'', PNone), (''name'', PStr ''a''), (''altText'', PStr []),
          (''type'', PStr ''image/jpeg''), (''typeDisplay'', PStr ''JPEG image''),
          (''thumbnailUrl'', PStr ''https://cms/media/a.jpg''),
          (''url'', PStr ''https://cms/media/a.jpg''),
          (''uploadedDate'', PStr ''0''), (''isGlobal'', PBool g)]"
  have r1: "\<exists>d. serialize example_env example_upload = Inr d"
    and r2: "\<exists>d. serialize example_env (example_upload\<lparr>region := None\<rparr>) = Inr d"
    by (simp_all add: serialize_def thumbnail_url_def url_returns cache_busted_def
        append_mtime_def field_path_def example_env_def example_upload_def truthy_file_def
        file_name_def startswith_def)
  from r1 obtain d1 where d1: "serialize example_env example_upload = Inr d1"
    by blast
  from r2 obtain d2 where d2: "serialize example_env (example_upload\<lparr>region := None\<rparr>) = Inr d2"
    by blast
  have g1: "map_of d1 ''isGlobal'' = Some (PBool (region example_upload = None))"
    using serialize_isGlobal [of example_env example_upload] d1 by blast
  have g2: "map_of d2 ''isGlobal''
      = Some (PBool (region (example_upload\<lparr>region := None\<rparr>) = None))"
    using serialize_isGlobal [of example_env "example_upload\<lparr>region := None\<rparr>"] d2 by blast
  have e1: "serialize example_env example_upload = Inr (?d False)"
    by (simp add: serialize_def thumbnail_url_def url_returns cache_busted_def append_mtime_def
        field_path_def get_type_display_def of_pk_def of_str_option_def
        example_env_def example_upload_def truthy_file_def file_name_def startswith_def
        str_nat.simps digit_char_def)
  have e2: "serialize example_env (example_upload\<lparr>region := None\<rparr>) = Inr (?d True)"
    by (simp add: serialize_def thumbnail_url_def url_returns cache_busted_def append_mtime_def
        field_path_def get_type_display_def of_pk_def of_str_option_def
        example_env_def example_upload_def truthy_file_def file_name_def startswith_def
        str_nat.simps digit_char_def)
  have "region example_upload = Some \<lparr>id_region = Some 7\<rparr>"
    by (simp add: example_upload_def)
  with g1 g2 e1 e2 show ?thesis
    by simp
qed

text \<open>
  C10. \<open>serialize\<close> never propagates an \<open>OSError\<close>.  When reading the modification time
  of the physical file fails with an \<open>OSError\<close>, \<open>serialize\<close> still returns the complete
  record of nine entries, its \<open>thumbnailUrl\<close> being the thumbnail url without the
  \<open>?<mtime>\<close> suffix.  When the modification time is read instead, the record is the
  same but for the suffix of a non-empty \<open>thumbnailUrl\<close>.
\<close>

theorem serialize_OSError:
  "serialize env self \<noteq> Inl OSError \<and>
   (field_path env (file_mf self) = Inr path \<and> getmtime env path = Inl OSError \<longrightarrow>
      (\<exists>tu u. thumbnail_url env self = Inr tu \<and> url env self = Inr u \<and>
         serialize env self =
           Inr [(''id'', of_pk (id_mf self)),
                (''name'', PStr (name self)),
                (''altText'', PStr (alt_text self)),
                (''type'', PStr (type self)),
                (''typeDisplay'', PStr (get_type_display env self)),
                (''thumbnailUrl'', of_str_option tu),
                (''url'', of_str_option u),
                (''uploadedDate'', PStr (localize_localtime env (uploaded_date self))),
                (''isGlobal'', PBool (region self = None))] \<and>
         (\<forall>g t. g path = Inr t \<longrightarrow>
            serialize (env\<lparr>getmtime := g\<rparr>) self =
              Inr [(''id'', of_pk (id_mf self)),
                   (''name'', PStr (name self)),
                   (''altText'', PStr (alt_text self)),
                   (''type'', PStr (type self)),
                   (''typeDisplay'', PStr (get_type_display env self)),
                   (''thumbnailUrl'',
                      of_str_option
                        (case tu of
                           None \<Rightarrow> None
                         | Some x \<Rightarrow>
                             if x = [] then Some x else Some (x @ ''?'' @ str_float env t))),
                   (''url'', of_str_option u),
                   (''uploadedDate'', PStr (localize_localtime env (uploaded_date self))),
                   (''isGlobal'', PBool (region self = None))])))"
proof (intro conjI impI)
  show "serialize env self \<noteq> Inl OSError"
    by (rule serialize_not_OSError)
next
  assume "field_path env (file_mf self) = Inr path \<and> getmtime env path = Inl OSError"
  then have p: "field_path env (file_mf self) = Inr path"
    and e: "getmtime env path = Inl OSError"
    by simp_all
  obtain tu where tu: "thumbnail_url env self = Inr tu"
    using thumbnail_url_returns by blast
  obtain u where u: "url env self = Inr u"
    by (simp add: url_returns)
  have cb: "cache_busted env self tu = Inr tu"
    using p e by (rule cache_busted_OSError)
  have failed: "serialize env self =
           Inr [(''id'', of_pk (id_mf self)),
                (''name'', PStr (name self)),
                (''altText'', PStr (alt_text self)),
                (''type'', PStr (type self)),
                (''typeDisplay'', PStr (get_type_display env self)),
                (''thumbnailUrl'', of_str_option tu),
                (''url'', of_str_option u),
                (''uploadedDate'', PStr (localize_localtime env (uploaded_date self))),
                (''isGlobal'', PBool (region self = None))]"
    by (simp add: serialize_def tu cb u)
  have read: "serialize (env\<lparr>getmtime := g\<rparr>) self =
              Inr [(''id'', of_pk (id_mf self)),
                   (''name'', PStr (name self)),
                   (''altText'', PStr (alt_text self)),
                   (''type'', PStr (type self)),
                   (''typeDisplay'', PStr (get_type_display env self)),
                   (''thumbnailUrl'',
                      of_str_option
                        (case tu of
                           None \<Rightarrow> None
                         | Some x \<Rightarrow>
                             if x = [] then Some x else Some (x @ ''?'' @ str_float env t))),
                   (''url'', of_str_option u),
                   (''uploadedDate'', PStr (localize_localtime env (uploaded_date self))),
                   (''isGlobal'', PBool (region self = None))]"
    if "g path = Inr t" for g t
    using p that cache_busted_mtime [of env self path g t tu]
    by (simp add: serialize_def thumbnail_url_getmtime url_getmtime get_type_display_getmtime tu u)
  show "\<exists>tu u. thumbnail_url env self = Inr tu \<and> url env self = Inr u \<and>
         serialize env self =
           Inr [(''id'', of_pk (id_mf self)),
                (''name'', PStr (name self)),
                (''altText'', PStr (alt_text self)),
                (''type'', PStr (type self)),
                (''typeDisplay'', PStr (get_type_display env self)),
                (''thumbnailUrl'', of_str_option tu),
                (''url'', of_str_option u),
                (''uploadedDate'', PStr (localize_localtime env (uploaded_date self))),
                (''isGlobal'', PBool (region self = None))] \<and>
         (\<forall>g t. g path = Inr t \<longrightarrow>
            serialize (env\<lparr>getmtime := g\<rparr>) self =
              Inr [(''id'', of_pk (id_mf self)),
                   (''name'', PStr (name self)),
                   (''altText'', PStr (alt_text self)),
                   (''type'', PStr (type self)),
                   (''typeDisplay'', PStr (get_type_display env self)),
                   (''thumbnailUrl'',
                      of_str_option
                        (case tu of
                           None \<Rightarrow> None
                         | Some x \<Rightarrow>
                             if x = [] then Some x else Some (x @ ''?'' @ str_float env t))),
                   (''url'', of_str_option u),
                   (''uploadedDate'', PStr (localize_localtime env (uploaded_date self))),
                   (''isGlobal'', PBool (region self = None))])"
    using tu u failed read by blast
qed

theorem serialize_OSError_witness:
  "field_path example_env (file_mf example_upload) = Inr ''/var/media/a.jpg'' \<and>
   getmtime example_env ''/var/media/a.jpg'' = Inl OSError \<and>
   serialize example_env example_upload =
     Inr [(''id'', PNone), (''name'', PStr ''a''), (''altText'', PStr []),
          (''type'', PStr ''image/jpeg''), (''typeDisplay'', PStr ''JPEG image''),
          (''thumbnailUrl'', PStr ''https://cms/media/a.jpg''),
          (''url'', PStr ''https://cms/media/a.jpg''),
          (''uploadedDate'', PStr ''0''), (''isGlobal'', PBool False)] \<and>
   serialize (example_env\<lparr>getmtime := \<lambda>p. Inr 17\<rparr>) example_upload =
     Inr [(''id'', PNone), (''name'', PStr ''a''), (''altText'', PStr []),
          (''type'', PStr ''image/jpeg''), (''typeDisplay'', PStr ''JPEG image''),
          (''thumbnailUrl'', PStr ''https://cms/media/a.jpg?17''),
          (''url'', PStr ''https://cms/media/a.jpg''),
          (''uploadedDate'', PStr ''0''), (''isGlobal'', PBool False)]"
proof -
  have h1: "field_path example_env (file_mf example_upload) = Inr ''/var/media/a.jpg''"
    by (simp add: field_path_def example_env_def example_upload_def truthy_file_def file_name_def)
  have h2: "getmtime example_env ''/var/media/a.jpg'' = Inl OSError"
    by (simp add: example_env_def)
  have tu: "thumbnail_url example_env example_upload = Inr (Some ''https://cms/media/a.jpg'')"
    by (simp add: thumbnail_url_def url_returns example_env_def example_upload_def
        truthy_file_def file_name_def startswith_def)
  have u: "url example_env example_upload = Inr (Some ''https://cms/media/a.jpg'')"
    by (simp add: url_returns example_env_def example_upload_def truthy_file_def file_name_def)
  have vals: "of_pk (id_mf example_upload) = PNone" "name example_upload = ''a''"
    "alt_text example_upload = []" "type example_upload = ''image/jpeg''"
    "get_type_display example_env example_upload = ''JPEG image''"
    "localize_localtime example_env (uploaded_date example_upload) = ''0''"
    "region example_upload \<noteq> None" "str_float example_env 17 = ''17''"
    by (simp_all add: of_pk_def get_type_display_def example_env_def example_upload_def
        str_nat.simps digit_char_def)
  from serialize_OSError [of example_env example_upload "''/var/media/a.jpg''"] h1 h2
  obtain tu' u' where
    tu': "thumbnail_url example_env example_upload = Inr tu'" and
    u': "url example_env example_upload = Inr u'" and
    failed: "serialize example_env example_upload =
           Inr [(''id'', of_pk (id_mf example_upload)),
                (''name'', PStr (name example_upload)),
                (''altText'', PStr (alt_text example_upload)),
                (''type'', PStr (type example_upload)),
                (''typeDisplay'', PStr (get_type_display example_env example_upload)),
                (''thumbnailUrl'', of_str_option tu'),
                (''url'', of_str_option u'),
                (''uploadedDate'',
                   PStr (localize_localtime example_env (uploaded_date example_upload))),
                (''isGlobal'', PBool (region example_upload = None))]" and
    read: "\<forall>g t. g ''/var/media/a.jpg'' = Inr t \<longrightarrow>
            serialize (example_env\<lparr>getmtime := g\<rparr>) example_upload =
              Inr [(''id'', of_pk (id_mf example_upload)),
                   (''name'', PStr (name example_upload)),
                   (''altText'', PStr (alt_text example_upload)),
                   (''type'', PStr (type example_upload)),
                   (''typeDisplay'', PStr (get_type_display example_env example_upload)),
                   (''thumbnailUrl'',
                      of_str_option
                        (case tu' of
                           None \<Rightarrow> None
                         | Some x \<Rightarrow>
                             if x = [] then Some x
                             else Some (x @ ''?'' @ str_float example_env t))),
                   (''url'', of_str_option u'),
                   (''uploadedDate'',
                      PStr (localize_localtime example_env (uploaded_date example_upload))),
                   (''isGlobal'', PBool (region example_upload = None))]"
    by blast
  from tu tu' have tu_eq: "tu' = Some ''https://cms/media/a.jpg''"
    by simp
  from u u' have u_eq: "u' = Some ''https://cms/media/a.jpg''"
    by simp
  have read17: "serialize (example_env\<lparr>getmtime := \<lambda>p. Inr 17\<rparr>) example_upload =
              Inr [(''id'', of_pk (id_mf example_upload)),
                   (''name'', PStr (name example_upload)),
                   (''altText'', PStr (alt_text example_upload)),
                   (''type'', PStr (type example_upload)),
                   (''typeDisplay'', PStr (get_type_display example_env example_upload)),
                   (''thumbnailUrl'',
                      of_str_option
                        (case tu' of
                           None \<Rightarrow> None
                         | Some x \<Rightarrow>
                             if x = [] then Some x
                             else Some (x @ ''?'' @ str_float example_env 17))),
                   (''url'', of_str_option u'),
                   (''uploadedDate'',
                      PStr (localize_localtime example_env (uploaded_date example_upload))),
                   (''isGlobal'', PBool (region example_upload = None))]"
    using read [THEN spec [where x = "\<lambda>p::string. (Inr 17 :: py_error + nat)"],
        THEN spec [where x = "17::nat"]]
    by simp
  show ?thesis
    using h1 h2 failed read17
    by (simp add: tu_eq u_eq vals of_str_option_def)
qed

section \<open>Archived pages\<close>

text \<open>
  C4. For an \<open>AbstractBasePage\<close>, the property \<open>archived\<close> is the flag
  \<open>explicitly_archived\<close>: at this level a page is archived exactly when it is explicitly
  archived (the inheritance from ancestors belongs to the subclasses).
\<close>

theorem archived_is_explicitly_archived: "archived self = explicitly_archived self"
  by (simp add: archived_def)

section \<open>The status of a site\<close>






section \<open>Granting and revoking the imprint deletion permission\<close>

lemma get_where_Inr:
  assumes "get_where P rows = Inr x"
  shows "x \<in> set rows \<and> P x"
proof -
  from assms have "filter P rows = [x]"
    by (auto simp: get_where_def split: list.splits)
  then have "x \<in> set (filter P rows)"
    by simp
  then show ?thesis
    by simp
qed

text \<open>
  C9. When the forward operation \<open>add_roles\<close> succeeds from a state in which
  \<open>MANAGEMENT\<close> does not hold \<open>delete_imprintpage\<close>, it adds exactly that permission to
  the group, and the reverse operation \<open>remove_roles\<close> then gives the starting state
  back.
\<close>

theorem remove_roles_inverts_add_roles:
  assumes "add_roles db = Inr db'"
    and "\<not> holds db ''MANAGEMENT'' ''delete_imprintpage''"
  shows "remove_roles db' = Inr db \<and>
         (\<exists>ps p. group_permissions db ''MANAGEMENT'' = Some ps \<and>
                 get_where (\<lambda>p. codename p = ''delete_imprintpage'') (permissions db) = Inr p \<and>
                 id_permission p \<notin> ps \<and>
                 group_permissions db' = (group_permissions db)
                   (''MANAGEMENT'' \<mapsto> insert (id_permission p) ps))"
proof -
  from assms(1) obtain ps p where
    ps: "group_permissions db ''MANAGEMENT'' = Some ps" and
    p: "get_where (\<lambda>p. codename p = ''delete_imprintpage'') (permissions db) = Inr p" and
    db': "db' = db\<lparr>group_permissions := (group_permissions db)
                   (''MANAGEMENT'' \<mapsto> insert (id_permission p) ps)\<rparr>"
    by (auto simp: add_roles_def split: option.splits sum.splits)
  from get_where_Inr [OF p]
  have "p \<in> set (permissions db)" and "codename p = ''delete_imprintpage''"
    by simp_all
  with assms(2) ps have notin: "id_permission p \<notin> ps"
    by (auto simp: holds_def list_ex_iff)
  have "(group_permissions db)(''MANAGEMENT'' \<mapsto> ps) = group_permissions db"
    using ps by (simp add: map_upd_triv)
  then have "remove_roles db' = Inr db"
    using notin p by (simp add: remove_roles_def db')
  then show ?thesis
    using ps p notin db' by simp
qed

theorem remove_roles_inverts_add_roles_witness:
  "add_roles example_auth =
     Inr (example_auth\<lparr>group_permissions := [''MANAGEMENT'' \<mapsto> {1, 2}]\<rparr>) \<and>
   \<not> holds example_auth ''MANAGEMENT'' ''delete_imprintpage'' \<and>
   remove_roles (example_auth\<lparr>group_permissions := [''MANAGEMENT'' \<mapsto> {1, 2}]\<rparr>)
     = Inr example_auth"
proof -
  have h1: "add_roles example_auth =
     Inr (example_auth\<lparr>group_permissions := [''MANAGEMENT'' \<mapsto> {1, 2}]\<rparr>)"
    by (simp add: add_roles_def get_where_def example_auth_def insert_commute)
  have h2: "\<not> holds example_auth ''MANAGEMENT'' ''delete_imprintpage''"
    by (simp add: holds_def example_auth_def)
  show ?thesis
    using h1 h2 remove_roles_inverts_add_roles [OF h1 h2] by simp
qed

section \<open>The language tree of a region\<close>

lemma fold_max_ge_init: "(a::nat) \<le> fold max xs a"
proof (induction xs arbitrary: a)
  case Nil
  show ?case by simp
next
  case (Cons x xs)
  have "a \<le> max x a" by simp
  also have "\<dots> \<le> fold max xs (max x a)" by (rule Cons.IH)
  finally show ?case by simp
qed

lemma fold_max_ge_member: "k \<in> set xs \<Longrightarrow> (k::nat) \<le> fold max xs a"
proof (induction xs arbitrary: a)
  case Nil
  then show ?case by simp
next
  case (Cons x xs)
  show ?case
  proof (cases "k = x")
    case True
    have "k \<le> max x a" using True by simp
    also have "\<dots> \<le> fold max xs (max x a)" by (rule fold_max_ge_init)
    finally show ?thesis by simp
  next
    case False
    with Cons.prems have "k \<in> set xs" by simp
    from Cons.IH [OF this] show ?thesis by simp
  qed
qed

lemma new_pk_fresh: "new_pk t \<notin> set (map fst t)"
proof
  assume "new_pk t \<in> set (map fst t)"
  from fold_max_ge_member [OF this, of 0] show False
    by (simp add: new_pk_def)
qed

lemma map_fst_overwrite:
  "map fst (map (\<lambda>(k', node'). if k' = k then (k', node) else (k', node')) t) = map fst t"
  by (induction t) auto

lemma distinct_save_node:
  assumes "distinct (map fst t)"
  shows "distinct (map fst (save_node t i node))"
proof (cases i)
  case None
  with assms new_pk_fresh [of t] show ?thesis
    by (simp add: save_node_def)
next
  case (Some k)
  show ?thesis
  proof (cases "k \<in> set (map fst t)")
    case True
    then have "save_node t i node =
        map (\<lambda>(k', node'). if k' = k then (k', node) else (k', node')) t"
      by (simp add: save_node_def Some)
    then have "map fst (save_node t i node) = map fst t"
      by (simp only: map_fst_overwrite)
    with assms show ?thesis by simp
  next
    case False
    then have "save_node t i node = t @ [(k, node)]"
      by (simp add: save_node_def Some)
    with assms False show ?thesis by simp
  qed
qed

lemma reaches_root_parent:
  assumes "map_of t k = Some node" and "parent node = Some p" and "reaches_root t fuel k"
  shows "\<exists>fuel'. fuel = Suc fuel' \<and> reaches_root t fuel' p"
  using assms by (cases fuel) simp_all

lemma acyclic_tree_acyclic:
  assumes d: "distinct (map fst t)" and a: "acyclic_tree t"
  shows "acyclic (parent_rel t)"
proof -
  define m where "m k = (LEAST fuel. reaches_root t fuel k)" for k
  have "parent_rel t \<subseteq> (measure m)\<inverse>"
  proof
    fix e
    assume e: "e \<in> parent_rel t"
    obtain k p where kp: "e = (k, p)" by (cases e)
    with e obtain node where node: "(k, node) \<in> set t" and par: "parent node = Some p"
      by (auto simp: parent_rel_def)
    from d node have look: "map_of t k = Some node"
      by simp
    from a node have "reaches_root t (length t) k"
      by (auto simp: acyclic_tree_def list_all_iff)
    then have "reaches_root t (m k) k"
      unfolding m_def by (rule LeastI)
    from reaches_root_parent [OF look par this]
    obtain fuel' where f: "m k = Suc fuel'" and r: "reaches_root t fuel' p"
      by blast
    from r have "m p \<le> fuel'"
      unfolding m_def by (rule Least_le)
    with f have "m p < m k" by simp
    then show "e \<in> (measure m)\<inverse>"
      by (simp add: kp)
  qed
  moreover have "acyclic ((measure m)\<inverse>)"
    by (simp add: wf_acyclic)
  ultimately show ?thesis
    by (rule acyclic_subset [rotated])
qed

lemma single_rooted_unique:
  assumes s: "single_rooted t" and node: "(k, node) \<in> set t"
  shows "\<exists>!k'. is_root t (region_node node) k'"
proof -
  from s node have "length (roots_of t (region_node node)) = 1"
    by (auto simp: single_rooted_def list_all_iff)
  then obtain e where e: "roots_of t (region_node node) = [e]"
    by (cases "roots_of t (region_node node)") simp_all
  obtain k0 n0 where e0: "e = (k0, n0)" by (cases e)
  have mem: "(k', n') \<in> set t \<and> region_node n' = region_node node \<and> parent n' = None
      \<longleftrightarrow> (k', n') = (k0, n0)" for k' n'
  proof -
    have "(k', n') \<in> set (roots_of t (region_node node)) \<longleftrightarrow> (k', n') = (k0, n0)"
      by (simp add: e e0)
    then show ?thesis
      by (simp add: roots_of_def)
  qed
  show ?thesis
  proof (rule ex1I [of _ k0])
    show "is_root t (region_node node) k0"
      unfolding is_root_def using mem [of k0 n0] by blast
  next
    fix k'
    assume "is_root t (region_node node) k'"
    then obtain n' where "(k', n') \<in> set t \<and> region_node n' = region_node node \<and> parent n' = None"
      by (auto simp: is_root_def)
    with mem [of k' n'] show "k' = k0" by simp
  qed
qed

lemma tree_ok_invariant:
  assumes "distinct (map fst t)" and "tree_ok t"
  shows "language_tree_invariant t"
proof -
  from assms have "acyclic (parent_rel t)"
    by (simp add: tree_ok_def acyclic_tree_acyclic)
  moreover have "\<forall>(k, node) \<in> set t. \<exists>!k'. is_root t (region_node node) k'"
  proof -
    have "\<exists>!k'. is_root t (region_node node) k'" if "(k, node) \<in> set t" for k node
      using assms(2) that by (intro single_rooted_unique [of t k node]) (simp_all add: tree_ok_def)
    then show ?thesis by blast
  qed
  ultimately show ?thesis
    by (simp add: language_tree_invariant_def)
qed

lemma submit_all_tree_ok:
  assumes "distinct (map fst t)" and "tree_ok t"
  shows "distinct (map fst (submit_all t forms)) \<and> tree_ok (submit_all t forms)"
  using assms
proof (induction forms arbitrary: t)
  case Nil
  then show ?case by simp
next
  case (Cons form forms)
  show ?case
  proof (cases "is_valid t form")
    case True
    let ?t' = "save_node t (instance_pk form) (cleaned_data form)"
    have "distinct (map fst ?t')"
      using Cons.prems(1) by (rule distinct_save_node)
    moreover have "tree_ok ?t'"
      using True by (simp add: is_valid_def)
    ultimately have "distinct (map fst (submit_all ?t' forms)) \<and> tree_ok (submit_all ?t' forms)"
      by (rule Cons.IH)
    with True show ?thesis
      by (simp add: save_language_node_def)
  next
    case False
    with Cons.IH [OF Cons.prems] show ?thesis
      by (simp add: save_language_node_def)
  qed
qed

lemma two_roots_break_invariant: "\<not> language_tree_invariant [(1, english), (2, english)]"
proof
  let ?t = "[(1, english), (2, english)] :: node_table"
  assume "language_tree_invariant ?t"
  then have "\<forall>(k, node) \<in> set ?t. \<exists>!k'. is_root ?t (region_node node) k'"
    unfolding language_tree_invariant_def by (rule conjunct2)
  then have one: "\<exists>!k'. is_root ?t (region_node english) k'"
    by simp
  have "is_root ?t (region_node english) 1" and "is_root ?t (region_node english) 2"
    by (simp_all add: is_root_def english_def)
  with one have "(1::nat) = 2"
    by blast
  then show False
    by simp
qed

text \<open>
  C7. The language tree of every region is acyclic and has exactly one node without a
  parent, and it is the form validation that keeps it so: from a table whose tree is
  well formed, every sequence of form submissions leaves the parent relation acyclic and
  every region that has a node with exactly one root; a valid submission is saved, an
  invalid one is refused.  The data layer alone does not keep the invariant: saving a
  second root breaks it.
\<close>

theorem language_tree_invariant_preserved:
  assumes "distinct (map fst t)" and "tree_ok t"
  shows "language_tree_invariant t \<and>
         language_tree_invariant (submit_all t forms) \<and>
         (is_valid t form \<longrightarrow>
            save_language_node t form
              = Inr (save_node t (instance_pk form) (cleaned_data form)) \<and>
            language_tree_invariant (save_node t (instance_pk form) (cleaned_data form))) \<and>
         (\<not> is_valid t form \<longrightarrow> save_language_node t form = Inl ValidationError) \<and>
         \<not> language_tree_invariant (save_node [(1, english)] None english)"
proof -
  have "language_tree_invariant t"
    using assms by (rule tree_ok_invariant)
  moreover have "language_tree_invariant (submit_all t forms)"
    using submit_all_tree_ok [OF assms, of forms] by (simp add: tree_ok_invariant)
  moreover have "language_tree_invariant (save_node t (instance_pk form) (cleaned_data form))"
    if "is_valid t form"
    using that distinct_save_node [OF assms(1)] by (simp add: is_valid_def tree_ok_invariant)
  moreover have "save_node [(1, english)] None english = [(1, english), (2, english)]"
    by (simp add: save_node_def new_pk_def)
  ultimately show ?thesis
    using two_roots_break_invariant by (simp add: save_language_node_def)
qed

theorem language_tree_invariant_preserved_witness:
  "distinct (map fst ([] :: node_table)) \<and> tree_ok [] \<and>
   submit_all []
     [\<lparr>instance_pk = None, cleaned_data = english\<rparr>,
      \<lparr>instance_pk = None, cleaned_data = deutsch\<rparr>,
      \<lparr>instance_pk = None, cleaned_data = english\<rparr>,
      \<lparr>instance_pk = Some 1, cleaned_data = english\<lparr>parent := Some 2\<rparr>\<rparr>]
     = [(1, english), (2, deutsch)] \<and>
   language_tree_invariant [(1, english), (2, deutsch)]"
proof -
  let ?forms = "[\<lparr>instance_pk = None, cleaned_data = english\<rparr>,
      \<lparr>instance_pk = None, cleaned_data = deutsch\<rparr>,
      \<lparr>instance_pk = None, cleaned_data = english\<rparr>,
      \<lparr>instance_pk = Some 1, cleaned_data = english\<lparr>parent := Some 2\<rparr>\<rparr>]"
  have h1: "distinct (map fst ([] :: node_table))"
    by simp
  have h2: "tree_ok []"
    by (simp add: tree_ok_def acyclic_tree_def single_rooted_def)
  have run: "submit_all [] ?forms = [(1, english), (2, deutsch)]"
    by (simp add: save_language_node_def is_valid_def save_node_def new_pk_def tree_ok_def
        acyclic_tree_def single_rooted_def roots_of_def english_def deutsch_def)
  from language_tree_invariant_preserved [OF h1 h2, of ?forms]
  have "language_tree_invariant (submit_all [] ?forms)"
    by blast
  with h1 h2 run show ?thesis
    by simp
qed

end
